theory Spec2Isabelle
  imports Complex_Main "HOL-Library.Word"
begin

text \<open>
  The client of the voice shopping assistant: the streaming chat (\<open>VoiceChat\<close>) and the
  recording and results component (\<open>ShopifyVoiceAssistant\<close>), each embedded as
  functions on a record of its React state, with what the browser and the server
  answer passed in as arguments. Effects that leave the component (messages on the
  channel, HTTP requests, alerts) are logged in the state.
\<close>

section \<open>JavaScript values shared by the components\<close>

subsection \<open>Strings\<close>

text \<open>
  A JavaScript string is a sequence of UTF-16 code units, modelled as a list of naturals.
  \<open>js\<close> writes an ASCII literal of the source; the few non-ASCII characters of the
  source's literals are written as their code units. A string is falsy exactly when it
  is empty.
\<close>

type_synonym jsstring = "nat list"

definition js :: "string \<Rightarrow> jsstring" where
  "js s = map of_char s"

text \<open>
  \<open>String.prototype.trim\<close> strips the code units of ECMAScript's WhiteSpace and
  LineTerminator productions from both ends.
\<close>

definition isWhiteSpace :: "nat \<Rightarrow> bool" where
  "isWhiteSpace c \<longleftrightarrow>
     c \<in> set [9, 10, 11, 12, 13, 32, 160, 5760, 8232, 8233, 8239, 8287, 12288, 65279]
     \<or> (8192 \<le> c \<and> c \<le> 8202)"

definition trim :: "jsstring \<Rightarrow> jsstring" where
  "trim s = rev (dropWhile isWhiteSpace (rev (dropWhile isWhiteSpace s)))"

text \<open>\<open>a || b\<close> on strings: the left operand unless it is empty.\<close>

definition or_else :: "jsstring \<Rightarrow> jsstring \<Rightarrow> jsstring" where
  "or_else a b = (if a \<noteq> [] then a else b)"

text \<open>\<open>xs[i]\<close>: \<open>undefined\<close> (here \<open>None\<close>) out of range.\<close>

definition elem_at :: "'a list \<Rightarrow> nat \<Rightarrow> 'a option" where
  "elem_at xs i = (if i < length xs then Some (xs ! i) else None)"

subsection \<open>Numbers\<close>

text \<open>
  The samples of a \<open>Float32Array\<close> and the doubles computed from them: a finite value,
  an infinity or NaN. Finite values are reals; the two products the encoder computes
  (a clamped 32-bit float times \<open>0x8000\<close> or \<open>0x7FFF\<close>) are exact in double precision,
  and signed zero is not distinguished (both zeros convert to the integer 0).
\<close>

datatype number = Finite real | PosInf | NegInf | NaN

fun Math_min :: "number \<Rightarrow> number \<Rightarrow> number" where
  "Math_min NaN y = NaN"
| "Math_min x NaN = NaN"
| "Math_min NegInf y = NegInf"
| "Math_min x NegInf = NegInf"
| "Math_min PosInf y = y"
| "Math_min x PosInf = x"
| "Math_min (Finite a) (Finite b) = Finite (min a b)"

fun Math_max :: "number \<Rightarrow> number \<Rightarrow> number" where
  "Math_max NaN y = NaN"
| "Math_max x NaN = NaN"
| "Math_max PosInf y = PosInf"
| "Math_max x PosInf = PosInf"
| "Math_max NegInf y = y"
| "Math_max x NegInf = x"
| "Math_max (Finite a) (Finite b) = Finite (max a b)"

text \<open>\<open>x < y\<close> on numbers: false whenever an operand is NaN.\<close>

fun less_num :: "number \<Rightarrow> number \<Rightarrow> bool" where
  "less_num NaN y = False"
| "less_num x NaN = False"
| "less_num (Finite a) (Finite b) = (a < b)"
| "less_num NegInf NegInf = False"
| "less_num NegInf y = True"
| "less_num x NegInf = False"
| "less_num PosInf y = False"
| "less_num x PosInf = True"

fun times_num :: "number \<Rightarrow> number \<Rightarrow> number" where
  "times_num NaN y = NaN"
| "times_num x NaN = NaN"
| "times_num (Finite a) (Finite b) = Finite (a * b)"
| "times_num (Finite a) PosInf = (if a = 0 then NaN else if 0 < a then PosInf else NegInf)"
| "times_num (Finite a) NegInf = (if a = 0 then NaN else if 0 < a then NegInf else PosInf)"
| "times_num PosInf (Finite b) = (if b = 0 then NaN else if 0 < b then PosInf else NegInf)"
| "times_num NegInf (Finite b) = (if b = 0 then NaN else if 0 < b then NegInf else PosInf)"
| "times_num PosInf PosInf = PosInf"
| "times_num PosInf NegInf = NegInf"
| "times_num NegInf PosInf = NegInf"
| "times_num NegInf NegInf = PosInf"

text \<open>
  Storing a number into an \<open>Int16Array\<close> applies ToInt16: NaN and the infinities become
  0, a finite value is truncated towards zero (\<open>ToIntegerOrZero\<close>) and the integer is
  reduced modulo \<open>2 ^ 16\<close> into the signed 16-bit range, which is what \<open>word_of_int\<close>
  does for a 16-bit word read with \<open>sint\<close>.
\<close>

definition truncate_real :: "real \<Rightarrow> int" where
  "truncate_real r = (if r < 0 then \<lceil>r\<rceil> else \<lfloor>r\<rfloor>)"

fun ToIntegerOrZero :: "number \<Rightarrow> int" where
  "ToIntegerOrZero (Finite r) = truncate_real r"
| "ToIntegerOrZero PosInf = 0"
| "ToIntegerOrZero NegInf = 0"
| "ToIntegerOrZero NaN = 0"

definition ToInt16 :: "number \<Rightarrow> 16 word" where
  "ToInt16 v = word_of_int (ToIntegerOrZero v)"

subsection \<open>Requests\<close>

text \<open>
  What an awaited \<open>fetch\<close> followed by \<open>response.json()\<close> can give: a rejection
  (network failure or unreadable body, with the error's message), a response whose
  \<open>ok\<close> is false (its status and the \<open>detail\<close> of its body, if any), or the parsed body.
\<close>

datatype 'a fetch_result = Rejected jsstring | NotOk nat "jsstring option" | Json 'a

section \<open>VoiceChat: the streaming chat component\<close>

text \<open>
  The component exists in two versions. The later one (under \<open>frontend/\<close>) streams
  16-bit PCM chunks cut by a script processor; the earlier one streams the chunks of a
  \<open>MediaRecorder\<close> and sends the stop signal from the recorder's \<open>onstop\<close> handler.
  Both share their state variables and the WebSocket handler, so one record holds the
  state of either; functions that exist only in the earlier version carry the suffix
  \<open>_mr\<close>.
\<close>

subsection \<open>Data\<close>

record VoiceSettings =
  voiceId :: jsstring
  language :: jsstring

record VoiceOption =
  voice_id :: jsstring
  voice_name :: jsstring
  voice_language :: jsstring

record AgentDocument =
  doc_title :: "jsstring option"
  doc_price :: "real option"
  doc_brand :: "jsstring option"
  doc_source :: "jsstring option"

record AgentMetadata =
  meta_citations :: "jsstring list"
  meta_retrievedDocs :: "AgentDocument list"
  meta_plan :: "(jsstring \<times> jsstring) list"

datatype role = user | assistant

text \<open>
  Message identifiers are \<open>Date.now().toString()\<close>, \<open>agent-<now>\<close> and
  \<open>agent-error-<now>\<close>: the prefix and the clock reading they are built from.
\<close>

datatype message_id = UserMessage nat | AgentMessage nat | AgentErrorMessage nat

record Message =
  message_id :: message_id
  message_role :: role
  content :: jsstring
  timestamp :: nat
  isVoiceInput :: "bool option"
  metadata :: "AgentMetadata option"

text \<open>The body of \<open>/api/agent\<close>; a field the JSON leaves out is \<open>None\<close>.\<close>

record AgentAPIResponse =
  api_answer :: "jsstring option"
  api_citations :: "jsstring list option"
  api_plan :: "(jsstring \<times> jsstring) list option"
  api_retrieved_docs :: "AgentDocument list option"

datatype status = ready | recording | transcribing | playing

datatype readyState = CONNECTING | OPEN | CLOSING | CLOSED

datatype recorder_state = inactive | rec_recording | rec_paused

text \<open>
  Messages of the streaming channel. The \<open>data\<close> of an audio message is the base64
  text of the chunk's bytes; the model keeps the samples it encodes.
\<close>

datatype client_message = Audio "16 word list" jsstring | Stop jsstring

datatype server_message = Transcript jsstring bool | Error jsstring | Unknown

datatype http_request = AgentRequest jsstring jsstring | VoicesRequest

record VoiceChat =
  messages :: "Message list"
  input :: jsstring
  userSettings :: VoiceSettings
  agentSettings :: VoiceSettings
  availableVoices :: "VoiceOption list"
  isRecording :: bool
  isTranscribing :: bool
  realtimeTranscript :: jsstring
  playingMessageId :: "message_id option"
  isAgentResponding :: bool
  status :: status
  wsRef :: "readyState option"
  mediaRecorderRef :: "recorder_state option"
  processorRef :: bool
  audioContextRef :: bool
  audioStreamRef :: bool
  isRecordingRef :: bool
  sent :: "client_message list"
  fetched :: "http_request list"

text \<open>
  \<open>wsRef\<close> is the socket's ready state, or \<open>None\<close> for the null reference;
  \<open>processorRef\<close>, \<open>audioContextRef\<close> and \<open>audioStreamRef\<close> say whether the
  reference is set. \<open>sent\<close> collects what \<open>ws.send\<close> has put on the channel and
  \<open>fetched\<close> the HTTP requests issued, oldest first.
\<close>

definition DEFAULT_VOICES :: "VoiceOption list" where
  "DEFAULT_VOICES =
     [\<lparr>voice_id = js ''21m00Tcm4TlvDq8ikWAM'', voice_name = js ''Rachel'', voice_language = js ''en''\<rparr>,
      \<lparr>voice_id = js ''pNInz6obpgDQGcFmaJgB'', voice_name = js ''Adam'', voice_language = js ''en''\<rparr>,
      \<lparr>voice_id = js ''EXAVITQu4vr4xnSDxMaL'', voice_name = js ''Bella'', voice_language = js ''en''\<rparr>,
      \<lparr>voice_id = js ''ErXwobaYiN019PkySvjV'', voice_name = js ''Antoni'', voice_language = js ''en''\<rparr>]"

definition initialVoiceChat :: VoiceChat where
  "initialVoiceChat =
     \<lparr>messages = [], input = [],
      userSettings = \<lparr>voiceId = js ''21m00Tcm4TlvDq8ikWAM'', language = js ''en''\<rparr>,
      agentSettings = \<lparr>voiceId = js ''pNInz6obpgDQGcFmaJgB'', language = js ''en''\<rparr>,
      availableVoices = DEFAULT_VOICES,
      isRecording = False, isTranscribing = False, realtimeTranscript = [],
      playingMessageId = None, isAgentResponding = False, status = ready,
      wsRef = None, mediaRecorderRef = None, processorRef = False, audioContextRef = False,
      audioStreamRef = False, isRecordingRef = False, sent = [], fetched = []\<rparr>"

subsection \<open>requestAgentResponse\<close>

text \<open>
  The function reads \<open>agentSettings.language\<close> from its closure, that is, from the
  render that created the running handler: \<open>agentLanguage\<close> is that captured value.
  \<open>now\<close> is the clock when the reply is turned into a message and \<open>response\<close> what
  the request to \<open>/api/agent\<close> gives.
\<close>

definition requestAgentResponse ::
  "VoiceChat \<Rightarrow> jsstring \<Rightarrow> jsstring \<Rightarrow> nat \<Rightarrow> AgentAPIResponse fetch_result \<Rightarrow> VoiceChat" where
  "requestAgentResponse st agentLanguage queryText now response =
     (let trimmed = trim queryText in
      if trimmed = [] then st
      else
        let st1 = st\<lparr>isAgentResponding := True,
                      fetched := fetched st @ [AgentRequest trimmed agentLanguage]\<rparr>;
            st2 = (case response of
                Json data \<Rightarrow>
                  st1\<lparr>messages := messages st1 @
                    [\<lparr>message_id = AgentMessage now, message_role = assistant,
                      content = or_else (case api_answer data of Some a \<Rightarrow> a | None \<Rightarrow> [])
                                  (js ''I couldn't find an answer yet, please try again.''),
                      timestamp = now, isVoiceInput = None,
                      metadata = Some
                        \<lparr>meta_citations = (case api_citations data of Some c \<Rightarrow> c | None \<Rightarrow> []),
                         meta_retrievedDocs = (case api_retrieved_docs data of Some d \<Rightarrow> d | None \<Rightarrow> []),
                         meta_plan = (case api_plan data of Some p \<Rightarrow> p | None \<Rightarrow> [])\<rparr>\<rparr>]\<rparr>
              | _ \<Rightarrow>
                  st1\<lparr>messages := messages st1 @
                    [\<lparr>message_id = AgentErrorMessage now, message_role = assistant,
                      content = js ''I'm having trouble reaching the product agent right now.'',
                      timestamp = now, isVoiceInput = None, metadata = None\<rparr>]\<rparr>)
        in st2\<lparr>isAgentResponding := False\<rparr>)"

subsection \<open>sendTextMessage\<close>

text \<open>
  The handler that runs is the one of the latest render, so the language it passes on
  is the current one.
\<close>

definition sendTextMessage :: "VoiceChat \<Rightarrow> nat \<Rightarrow> AgentAPIResponse fetch_result \<Rightarrow> VoiceChat" where
  "sendTextMessage st now response =
     (if trim (input st) = [] then st
      else
        let userMessage = \<lparr>message_id = UserMessage now, message_role = user, content = input st,
                           timestamp = now, isVoiceInput = Some False, metadata = None\<rparr>
        in requestAgentResponse (st\<lparr>messages := messages st @ [userMessage], input := []\<rparr>)
             (language (agentSettings st)) (content userMessage) now response)"

subsection \<open>The WebSocket message handler\<close>

text \<open>
  The handler is created when the socket is opened and lives as long as the socket:
  \<open>agentLanguage\<close> is the agent's language of the render that opened it.
\<close>

definition onmessage ::
  "VoiceChat \<Rightarrow> jsstring \<Rightarrow> server_message \<Rightarrow> nat \<Rightarrow> AgentAPIResponse fetch_result \<Rightarrow>
   VoiceChat" where
  "onmessage st agentLanguage data now response =
     (case data of
        Transcript text is_final \<Rightarrow>
          (let st1 = st\<lparr>isTranscribing := False, status := ready\<rparr> in
           if is_final \<and> text \<noteq> [] then
             let userMessage = \<lparr>message_id = UserMessage now, message_role = user, content = text,
                                timestamp = now, isVoiceInput = Some True, metadata = None\<rparr>
             in requestAgentResponse
                  (st1\<lparr>messages := messages st1 @ [userMessage], realtimeTranscript := []\<rparr>)
                  agentLanguage text now response
           else if \<not> is_final then st1\<lparr>realtimeTranscript := text\<rparr>
           else st1)
      | Error message \<Rightarrow> st\<lparr>isTranscribing := False, status := ready, realtimeTranscript := []\<rparr>
      | Unknown \<Rightarrow> st)"

subsection \<open>fetchVoices\<close>

definition syncSettingsWithVoices ::
  "VoiceOption list \<Rightarrow> VoiceSettings \<Rightarrow> VoiceOption option \<Rightarrow> VoiceSettings" where
  "syncSettingsWithVoices voices prev fallback =
     (case find (\<lambda>voice. voice_id voice = voiceId prev) voices of
        Some voiceMatch \<Rightarrow>
          if voice_language voiceMatch \<noteq> [] \<and> voice_language voiceMatch \<noteq> language prev
          then prev\<lparr>language := voice_language voiceMatch\<rparr>
          else prev
      | None \<Rightarrow>
          (case fallback of
             Some fb \<Rightarrow> \<lparr>voiceId = voice_id fb, language = or_else (voice_language fb) (language prev)\<rparr>
           | None \<Rightarrow> prev))"

text \<open>A body that is \<open>null\<close> takes the same branch as an empty list.\<close>

definition fetchVoices :: "VoiceChat \<Rightarrow> VoiceOption list fetch_result \<Rightarrow> VoiceChat" where
  "fetchVoices st response =
     (let st0 = st\<lparr>fetched := fetched st @ [VoicesRequest]\<rparr> in
      case response of
        Json voices \<Rightarrow>
          if voices \<noteq> [] then
            st0\<lparr>availableVoices := voices,
                userSettings := syncSettingsWithVoices voices (userSettings st0) (elem_at voices 0),
                agentSettings := syncSettingsWithVoices voices (agentSettings st0)
                   (case elem_at voices 1 of Some v \<Rightarrow> Some v | None \<Rightarrow> elem_at voices 0)\<rparr>
          else st0\<lparr>availableVoices := DEFAULT_VOICES\<rparr>
      | NotOk code detail \<Rightarrow> st0\<lparr>availableVoices := DEFAULT_VOICES\<rparr>
      | Rejected err \<Rightarrow> st0\<lparr>availableVoices := DEFAULT_VOICES\<rparr>)"

subsection \<open>The PCM encoder of the script processor\<close>

definition clamp_sample :: "number \<Rightarrow> number" where
  "clamp_sample x = Math_max (Finite (- 1)) (Math_min (Finite 1) x)"

definition scale_sample :: "number \<Rightarrow> number" where
  "scale_sample s =
     (if less_num s (Finite 0) then times_num s (Finite 32768) else times_num s (Finite 32767))"

text \<open>
  The conversion loop: \<open>pcmData\<close> starts as zeros of the input's length and slot \<open>i\<close>
  receives the scaled, clamped sample \<open>i\<close>.
\<close>

function pcm_loop :: "number list \<Rightarrow> nat \<Rightarrow> 16 word list \<Rightarrow> 16 word list" where
  "pcm_loop inputData i pcmData =
     (if i < length inputData
      then pcm_loop inputData (i + 1)
             (pcmData[i := ToInt16 (scale_sample (clamp_sample (inputData ! i)))])
      else pcmData)"
  by pat_completeness auto
termination
  by (relation "measure (\<lambda>(inputData, i, pcmData). length inputData - i)") auto

declare pcm_loop.simps [simp del]

definition encode_pcm :: "number list \<Rightarrow> 16 word list" where
  "encode_pcm inputData = pcm_loop inputData 0 (replicate (length inputData) 0)"

text \<open>
  The handler is created by \<open>startRecording\<close>: \<open>userLanguage\<close> is the user's language
  of the render in which the recording was started.
\<close>

definition onaudioprocess :: "VoiceChat \<Rightarrow> jsstring \<Rightarrow> number list \<Rightarrow> VoiceChat" where
  "onaudioprocess st userLanguage inputData =
     (if \<not> isRecordingRef st \<or> wsRef st = None \<or> wsRef st \<noteq> Some OPEN then st
      else st\<lparr>sent := sent st @ [Audio (encode_pcm inputData) userLanguage]\<rparr>)"

subsection \<open>stopRecording\<close>

text \<open>
  \<open>stopRecording\<close> runs from the latest render and sends the current language of the
  user.
\<close>

definition stopRecording_vc :: "VoiceChat \<Rightarrow> VoiceChat" where
  "stopRecording_vc st =
     (let st1 = st\<lparr>isRecording := False, isRecordingRef := False, processorRef := False,
                   audioContextRef := False, audioStreamRef := False\<rparr>;
          st2 = (if wsRef st1 = Some OPEN
                 then st1\<lparr>sent := sent st1 @ [Stop (language (userSettings st1))]\<rparr>
                 else st1)
      in st2\<lparr>isTranscribing := True, status := transcribing\<rparr>)"

text \<open>
  The earlier version: \<open>stopRecording\<close> stops the recorder unless it is inactive, and the
  recorder's \<open>onstop\<close> handler then sends the stop signal. That handler is created by
  \<open>startRecording\<close>, so the language it sends is the one its closure holds:
  \<open>userLanguage\<close> is the user's language of the render in which the recording was
  started, whatever the settings are when it stops.
\<close>

definition onstop_mr :: "VoiceChat \<Rightarrow> jsstring \<Rightarrow> VoiceChat" where
  "onstop_mr st userLanguage =
     (let st1 = (if wsRef st = Some OPEN
                 then st\<lparr>sent := sent st @ [Stop userLanguage]\<rparr>
                 else st)
      in st1\<lparr>isRecording := False, isTranscribing := True, status := transcribing\<rparr>)"

definition stopRecording_mr :: "VoiceChat \<Rightarrow> jsstring \<Rightarrow> VoiceChat" where
  "stopRecording_mr st userLanguage =
     (case mediaRecorderRef st of
        None \<Rightarrow> st
      | Some inactive \<Rightarrow> st
      | Some _ \<Rightarrow> onstop_mr (st\<lparr>mediaRecorderRef := Some inactive\<rparr>) userLanguage)"

section \<open>ShopifyVoiceAssistant: the recording and results component\<close>

text \<open>
  This component also exists in two versions: a prototype that only replays its mock
  result, and the version under \<open>src/\<close> that adds speech recognition, the query request
  and synthesized playback. The later version keeps the prototype's state variables
  except \<open>isPlayingTTS\<close> and \<open>ttsProgress\<close>, so one record holds the state of either;
  the prototype's functions carry the suffix \<open>_proto\<close> where the names coincide.
\<close>

subsection \<open>Data\<close>

record PriceRange =
  price_min :: "real option"
  price_max :: "real option"

record Constraints =
  price :: PriceRange
  material :: jsstring
  category :: jsstring

datatype Source = Private jsstring jsstring | Web jsstring jsstring

record Product =
  product_id :: nat
  title :: jsstring
  product_price :: real
  rating :: real
  ratingCount :: nat
  brand :: jsstring
  product_material :: jsstring
  description :: jsstring
  source :: "Source list"
  ingredients :: jsstring
  reviewSample :: jsstring

datatype step_status = completed | failed

record StepLogEntry =
  node :: jsstring
  step_status :: step_status
  message :: jsstring
  detail :: jsstring
  step_timestamp :: real

text \<open>
  The mock result has no \<open>citations\<close> field, hence the option. A string field that a
  response body leaves out is read as the empty string, which every use treats alike.
\<close>

record Result =
  query :: jsstring
  answer :: jsstring
  task :: jsstring
  constraints :: Constraints
  products :: "Product list"
  citations :: "jsstring list option"
  stepLog :: "StepLogEntry list"

record QueryResponse =
  data_query :: jsstring
  data_answer :: jsstring
  data_task :: jsstring
  data_constraints :: Constraints
  data_products :: "Product list option"
  data_citations :: "jsstring list option"

record AudioElement =
  src :: jsstring
  paused :: bool
  currentTime :: real

datatype recordingState = Idle | Recording | Processing

datatype recognition = listening | stopped

datatype api_request = QueryRequest jsstring | TtsRequest jsstring | AsrRequest | AudioFetch jsstring

text \<open>
  Where a call of a playback toggle that has started a playback stands while it waits:
  for the synthesis request, for the download of the synthesized audio, for its
  transcription, or for \<open>audio.play()\<close> to settle. From the second phase on the call
  holds the audio element it has created, given by its index among the elements.
\<close>

datatype start_phase = AwaitSpeech | AwaitDownload nat | AwaitTranscription nat | AwaitPlay nat

type_synonym blob = "nat list"

record Assistant =
  recordingState :: recordingState
  audioBlob :: "blob option"
  liveTranscript :: jsstring
  finalTranscript :: jsstring
  recordingTime :: nat
  isProcessing :: bool
  currentAgentStep :: "jsstring option"
  agentSteps :: "StepLogEntry list"
  result :: "Result option"
  waveformData :: "real list"
  showTranscript :: bool
  isPlayingTranscriptTTS :: bool
  transcriptTtsProgress :: real
  isPlayingAnswerTTS :: bool
  answerTtsProgress :: real
  answerTranscript :: jsstring
  isPlayingTTS :: bool
  ttsProgress :: real
  ttsTimeouts :: nat
  recorder :: "recorder_state option"
  recognitionRef :: "recognition option"
  recordingIntervalRef :: bool
  waveformIntervalRef :: bool
  audioElements :: "AudioElement list"
  transcriptAudioRef :: "nat option"
  answerAudioRef :: "nat option"
  transcriptStarts :: "start_phase list"
  answerStarts :: "start_phase list"
  alerts :: "jsstring list"
  requests :: "api_request list"

text \<open>
  \<open>recorder\<close> is the state of the recorder held by \<open>mediaRecorderRef\<close> (\<open>None\<close> for the
  null reference), \<open>recognitionRef\<close> the recognizer, the two interval references say
  whether the timer runs, and \<open>ttsTimeouts\<close> counts the prototype's pending playback
  timeouts. \<open>audioElements\<close> holds the audio elements the playback toggles have
  created, in the order of their creation; the two audio references name an element by
  its index, or are \<open>None\<close> for the null reference. \<open>transcriptStarts\<close> and
  \<open>answerStarts\<close> hold the calls of each toggle that have started a playback and are
  still waiting. \<open>alerts\<close> collects the texts shown by \<open>alert\<close> and \<open>requests\<close> the
  HTTP requests issued, oldest first. The playback of the raw recording and the
  purely visual state (expanded log, selected product) are left out.
\<close>

definition mockResult :: Result where
  "mockResult =
     \<lparr>query = js ''Recommend an eco-friendly stainless-steel cleaner under fifteen dollars.'',
      answer = js ''I found 3 products matching your criteria. My top recommendation is Brand X Steel-Safe Eco Cleaner''
        @ [8212] @ js ''it has a 4.6'' @ [9733]
        @ js '' rating with over 2,800 reviews and is typically priced at $12.49. This product uses plant-based surfactants and is fully biodegradable. I've also identified 2 alternative options that may suit your needs.'',
      task = js ''recommendation'',
      constraints = \<lparr>price = \<lparr>price_min = Some 0, price_max = Some 15\<rparr>,
                      material = js ''Eco-Friendly'', category = js ''Cleaner''\<rparr>,
      products =
        [\<lparr>product_id = 1, title = js ''Brand X Steel-Safe Eco Cleaner'', product_price = 12.49,
          rating = 4.6, ratingCount = 2843, brand = js ''Brand X'',
          product_material = js ''Stainless Steel + Eco'',
          description = js ''Plant-based surfactants, biodegradable formula'',
          source = [Private (js ''B07XYZ123'') (js ''Catalog''), Web (js ''https://amazon.com'') (js ''Amazon'')],
          ingredients = js ''Water, plant-based surfactants, essential oils'',
          reviewSample = js ''Best eco-friendly cleaner I've used. Doesn't streak!''\<rparr>,
         \<lparr>product_id = 2, title = js ''Brand Y Eco Clear Cleaner'', product_price = 14.99,
          rating = 4.2, ratingCount = 1203, brand = js ''Brand Y'',
          product_material = js ''Stainless Steel'',
          description = js ''Natural ingredients, no harsh chemicals'',
          source = [Web (js ''https://walmart.com'') (js ''Walmart'')],
          ingredients = js ''Water, plant extracts, vinegar'',
          reviewSample = js ''Great value, mild smell''\<rparr>,
         \<lparr>product_id = 3, title = js ''Budget Shine Cleaner'', product_price = 9.99,
          rating = 3.8, ratingCount = 456, brand = js ''Budget Shine'',
          product_material = js ''Plastic Safe'',
          description = js ''Affordable all-purpose cleaner'',
          source = [Private (js ''B09ABC789'') (js ''Catalog'')],
          ingredients = js ''Water, cleaning agents, alcohol'',
          reviewSample = js ''Good for the price, slight chemical smell''\<rparr>],
      citations = None,
      stepLog =
        [\<lparr>node = js ''router'', step_status = completed, message = js ''Intent Classification'',
          detail = js ''Identified: Recommendation task. Constraints: price '' @ [8804]
            @ js '' $15, material: eco-friendly'',
          step_timestamp = 0\<rparr>,
         \<lparr>node = js ''planner'', step_status = completed, message = js ''Retrieval Planning'',
          detail = js ''Planned hybrid search: Private RAG + Live web search'',
          step_timestamp = 0.8\<rparr>,
         \<lparr>node = js ''retriever'', step_status = completed, message = js ''Product Retrieval'',
          detail = js ''Retrieved 5 products. Filtered to 3 eco-friendly items under $15'',
          step_timestamp = 1.6\<rparr>,
         \<lparr>node = js ''answerer'', step_status = completed, message = js ''Answer Generation'',
          detail = js ''Generated natural language response with citations'',
          step_timestamp = 2.4\<rparr>]\<rparr>"

definition initialAssistant :: Assistant where
  "initialAssistant =
     \<lparr>recordingState = Idle, audioBlob = None, liveTranscript = [], finalTranscript = [],
      recordingTime = 0, isProcessing = False, currentAgentStep = None, agentSteps = [],
      result = None, waveformData = [], showTranscript = False,
      isPlayingTranscriptTTS = False, transcriptTtsProgress = 0,
      isPlayingAnswerTTS = False, answerTtsProgress = 0, answerTranscript = [],
      isPlayingTTS = False, ttsProgress = 0, ttsTimeouts = 0,
      recorder = None, recognitionRef = None,
      recordingIntervalRef = False, waveformIntervalRef = False,
      audioElements = [], transcriptAudioRef = None, answerAudioRef = None,
      transcriptStarts = [], answerStarts = [], alerts = [], requests = []\<rparr>"

subsection \<open>startRecording\<close>

text \<open>
  What \<open>getUserMedia\<close> answers: the user declines, or grants a stream; in the latter
  case the flag says whether the browser offers \<open>SpeechRecognition\<close>. The constructors
  called after the stream is granted are taken not to throw.
\<close>

datatype microphone = Denied | Granted bool

definition startRecording :: "Assistant \<Rightarrow> microphone \<Rightarrow> Assistant" where
  "startRecording st mic =
     (case mic of
        Denied \<Rightarrow>
          st\<lparr>alerts := alerts st @
            [js ''Microphone access denied. Please allow microphone access in your browser settings.'']\<rparr>
      | Granted speechRecognition \<Rightarrow>
          st\<lparr>recorder := Some rec_recording,
             recordingState := Recording, recordingTime := 0, liveTranscript := [],
             waveformData := [], recordingIntervalRef := True, waveformIntervalRef := True,
             recognitionRef := (if speechRecognition then Some listening else recognitionRef st)\<rparr>)"

definition startRecording_proto :: "Assistant \<Rightarrow> microphone \<Rightarrow> Assistant" where
  "startRecording_proto st mic =
     (case mic of
        Denied \<Rightarrow>
          st\<lparr>alerts := alerts st @
            [js ''Microphone access denied. Please allow microphone access in your browser settings.'']\<rparr>
      | Granted speechRecognition \<Rightarrow>
          st\<lparr>recorder := Some rec_recording,
             recordingState := Recording, recordingTime := 0, liveTranscript := [],
             waveformData := [], recordingIntervalRef := True, waveformIntervalRef := True\<rparr>)"

subsection \<open>Recognition results\<close>

text \<open>
  A result event carries the index of the first changed result and the results; of each
  result the handler reads the first alternative's transcript and the final flag.
\<close>

record SpeechResult =
  transcript :: jsstring
  isFinal :: bool

record SpeechEvent =
  resultIndex :: nat
  results :: "SpeechResult list"

function onresult_loop ::
  "SpeechResult list \<Rightarrow> nat \<Rightarrow> jsstring \<Rightarrow> jsstring \<Rightarrow> jsstring \<times> jsstring" where
  "onresult_loop rs i interim final =
     (if i < length rs then
        let tr = trim (transcript (rs ! i)) in
        if isFinal (rs ! i) then onresult_loop rs (i + 1) interim (final @ tr @ js '' '')
        else onresult_loop rs (i + 1) (interim @ tr @ js '' '') final
      else (interim, final))"
  by pat_completeness auto
termination
  by (relation "measure (\<lambda>(rs, i, interim, final). length rs - i)") auto

declare onresult_loop.simps [simp del]

definition onresult :: "Assistant \<Rightarrow> SpeechEvent \<Rightarrow> Assistant" where
  "onresult st event =
     (case onresult_loop (results event) (resultIndex event) [] [] of
        (interim, final) \<Rightarrow>
          let st1 = (if interim \<noteq> [] then st\<lparr>liveTranscript := interim\<rparr> else st)
          in if final \<noteq> []
             then st1\<lparr>finalTranscript :=
                    (if finalTranscript st1 \<noteq> [] then finalTranscript st1 @ js '' '' @ final
                     else final)\<rparr>
             else st1)"

subsection \<open>stopRecording\<close>

definition stopRecording :: "Assistant \<Rightarrow> Assistant" where
  "stopRecording st =
     (let st1 = (case recorder st of
                   None \<Rightarrow> st
                 | Some inactive \<Rightarrow> st
                 | Some _ \<Rightarrow> st\<lparr>recorder := Some inactive\<rparr>);
          st2 = st1\<lparr>recordingIntervalRef := False, waveformIntervalRef := False,
                    recordingState := Idle\<rparr>;
          st3 = (case recognitionRef st2 of
                   None \<Rightarrow> st2
                 | Some r \<Rightarrow> st2\<lparr>recognitionRef := Some stopped\<rparr>);
          st4 = st3\<lparr>finalTranscript := or_else (finalTranscript st3) (liveTranscript st),
                    liveTranscript := [], showTranscript := False\<rparr>
      in if finalTranscript st = [] \<and> audioBlob st \<noteq> None
         then st4\<lparr>requests := requests st4 @ [AsrRequest]\<rparr>
         else st4)"

text \<open>The answer to the batch transcription request issued by \<open>stopRecording\<close>.\<close>

definition asr_resolved :: "Assistant \<Rightarrow> jsstring fetch_result \<Rightarrow> Assistant" where
  "asr_resolved st response =
     (case response of
        Json text \<Rightarrow> if text \<noteq> [] then st\<lparr>finalTranscript := text\<rparr> else st
      | _ \<Rightarrow> st)"

definition stopRecording_proto :: "Assistant \<Rightarrow> Assistant" where
  "stopRecording_proto st =
     (let st1 = (case recorder st of
                   None \<Rightarrow> st
                 | Some inactive \<Rightarrow> st
                 | Some _ \<Rightarrow> st\<lparr>recorder := Some inactive\<rparr>)
      in st1\<lparr>recordingIntervalRef := False, waveformIntervalRef := False,
             recordingState := Idle\<rparr>)"

subsection \<open>fetchQueryResults\<close>

text \<open>
  \<open>capturedSteps\<close> is the value of \<open>agentSteps\<close> that the closure of the running
  handler holds: the one of the render that created the handler, not the list the
  stepping has built since.
\<close>

definition query_failed :: "Assistant \<Rightarrow> jsstring \<Rightarrow> Assistant" where
  "query_failed st errorMessage =
     st\<lparr>result := Some mockResult, answerTranscript := answer mockResult,
        alerts := alerts st @
          [js ''API Error: '' @ errorMessage @ js ''. Showing mock data instead.'']\<rparr>"

definition fetchQueryResults ::
  "Assistant \<Rightarrow> StepLogEntry list \<Rightarrow> jsstring \<Rightarrow> QueryResponse fetch_result \<Rightarrow> Assistant" where
  "fetchQueryResults st capturedSteps q response =
     (let st0 = st\<lparr>requests := requests st @ [QueryRequest q]\<rparr> in
      case response of
        Json data \<Rightarrow>
          st0\<lparr>result := Some
                \<lparr>query = data_query data, answer = data_answer data, task = data_task data,
                 constraints = data_constraints data,
                 products = (case data_products data of Some p \<Rightarrow> p | None \<Rightarrow> []),
                 citations = Some (case data_citations data of Some c \<Rightarrow> c | None \<Rightarrow> []),
                 stepLog = capturedSteps\<rparr>,
              answerTranscript := or_else (data_answer data) []\<rparr>
      | NotOk code errorDetail \<Rightarrow>
          query_failed st0
            (or_else (case errorDetail of Some d \<Rightarrow> d | None \<Rightarrow> []) (js ''Query failed''))
      | Rejected errorMessage \<Rightarrow> query_failed st0 errorMessage)"

subsection \<open>processAudio\<close>

text \<open>
  \<open>processStep\<close> re-schedules itself every 800 ms until the mock step log is
  exhausted; the recursion runs the chain of timer callbacks to its end.
\<close>

function processStep ::
  "StepLogEntry list \<Rightarrow> nat \<Rightarrow> StepLogEntry list \<Rightarrow> QueryResponse fetch_result \<Rightarrow>
   Assistant \<Rightarrow> Assistant" where
  "processStep steps index capturedSteps response st =
     (if index < length steps then
        let step = steps ! index in
        processStep steps (index + 1) capturedSteps response
          (st\<lparr>currentAgentStep := Some (node step),
              agentSteps := agentSteps st @ [step\<lparr>step_status := completed\<rparr>]\<rparr>)
      else
        fetchQueryResults
          (st\<lparr>currentAgentStep := None, isProcessing := False, recordingState := Idle\<rparr>)
          capturedSteps (query mockResult) response)"
  by pat_completeness auto
termination
  by (relation "measure (\<lambda>(steps, index, capturedSteps, response, st). length steps - index)") auto

declare processStep.simps [simp del]

definition processAudio ::
  "Assistant \<Rightarrow> StepLogEntry list \<Rightarrow> QueryResponse fetch_result \<Rightarrow> Assistant" where
  "processAudio st capturedSteps response =
     processStep (stepLog mockResult) 0 capturedSteps response
       (st\<lparr>recordingState := Processing, isProcessing := True, agentSteps := []\<rparr>)"

text \<open>The recorder's \<open>onstop\<close> handler stores the recording and starts the processing.\<close>

definition recorder_onstop ::
  "Assistant \<Rightarrow> blob \<Rightarrow> StepLogEntry list \<Rightarrow> QueryResponse fetch_result \<Rightarrow> Assistant" where
  "recorder_onstop st recorded capturedSteps response =
     processAudio (st\<lparr>audioBlob := Some recorded\<rparr>) capturedSteps response"

text \<open>The prototype ends the stepping by showing the mock result.\<close>

function processStep_proto :: "StepLogEntry list \<Rightarrow> nat \<Rightarrow> Assistant \<Rightarrow> Assistant" where
  "processStep_proto steps index st =
     (if index < length steps then
        let step = steps ! index in
        processStep_proto steps (index + 1)
          (st\<lparr>currentAgentStep := Some (node step),
              agentSteps := agentSteps st @ [step\<lparr>step_status := completed\<rparr>]\<rparr>)
      else
        st\<lparr>currentAgentStep := None, isProcessing := False, recordingState := Idle,
           result := Some mockResult\<rparr>)"
  by pat_completeness auto
termination
  by (relation "measure (\<lambda>(steps, index, st). length steps - index)") auto

declare processStep_proto.simps [simp del]

definition processAudio_proto :: "Assistant \<Rightarrow> Assistant" where
  "processAudio_proto st =
     processStep_proto (stepLog mockResult) 0
       (st\<lparr>recordingState := Processing, isProcessing := True, agentSteps := []\<rparr>)"

subsection \<open>Synthesized playback\<close>

text \<open>
  A toggle either stops the running playback or begins a start sequence. The start
  sequence sets the playing flag and then waits several times (for \<open>/api/tts\<close>, for the
  download and the transcription of the audio, for \<open>audio.play()\<close>); other handlers,
  further toggles among them, run in between. So the toggle itself is only the part
  up to the first wait, and every resumption is a function of its own. A resumption
  names the waiting call by its position \<open>k\<close> among the waiting calls and does nothing
  if that call is not in the phase it resumes.
\<close>

















definition answer_onended :: "Assistant \<Rightarrow> Assistant" where
  "answer_onended st = st\<lparr>isPlayingAnswerTTS := False, answerTtsProgress := 100\<rparr>"

definition answer_onerror :: "Assistant \<Rightarrow> Assistant" where
  "answer_onerror st =
     st\<lparr>isPlayingAnswerTTS := False, answerTtsProgress := 0,
        alerts := alerts st @ [js ''Failed to play audio. Please try again.'']\<rparr>"



definition playTTS_tick :: "Assistant \<Rightarrow> Assistant" where
  "playTTS_tick st =
     (if isPlayingTTS st then st\<lparr>ttsProgress := min (ttsProgress st + 2) 100\<rparr> else st)"

section \<open>The retriever's merge\<close>

text \<open>
  The pipeline stages run on the server, whose code is not among the sources; the
  client only posts the query and shows what comes back.
\<close>

text \<open>
  Modelled from the spec: the Document of the data model (section 3), the normalized
  product record the retriever's sources return; the server's own type is missing.
\<close>

record Document =
  document_id :: jsstring
  document_title :: jsstring
  document_price :: real
  document_rating :: real
  document_rating_count :: nat
  document_brand :: jsstring
  document_material :: jsstring
  document_content :: jsstring
  score :: real
  provenance :: Source

text \<open>
  Modelled from the spec: the ConstraintSet of the data model (section 3), with an
  optional lower and upper price bound, the required material and category tags and
  the brand allow-list; the server's own type is missing.
\<close>

record ConstraintSet =
  min_price :: "real option"
  max_price :: "real option"
  tags :: "jsstring list"
  brands :: "jsstring list"

text \<open>
  Modelled from the spec: the hard bounds of a ConstraintSet as the Multi-Source
  Retriever's merge policy checks them (the price inside the range, every required
  material or category tag present). How a tag is looked up in a document is not
  specified, so the lookup \<open>has_tag\<close> is a parameter.
\<close>

definition within_bounds ::
  "(Document \<Rightarrow> jsstring \<Rightarrow> bool) \<Rightarrow> ConstraintSet \<Rightarrow> Document \<Rightarrow> bool" where
  "within_bounds has_tag cs d \<longleftrightarrow>
     (case min_price cs of None \<Rightarrow> True | Some lo \<Rightarrow> lo \<le> document_price d) \<and>
     (case max_price cs of None \<Rightarrow> True | Some hi \<Rightarrow> document_price d \<le> hi) \<and>
     list_all (has_tag d) (tags cs)"

text \<open>
  Modelled from the spec: the order of the merge policy, by relevance score descending
  with ties broken by rating count descending.
\<close>

definition ranks_before :: "Document \<Rightarrow> Document \<Rightarrow> bool" where
  "ranks_before a b \<longleftrightarrow>
     score b < score a \<or> (score a = score b \<and> document_rating_count b < document_rating_count a)"

text \<open>
  Modelled from the spec: insertion of a document into a ranked list behind every
  document that ranks before it, which keeps the order of arrival among equals.
\<close>

fun insert_ranked :: "Document \<Rightarrow> Document list \<Rightarrow> Document list" where
  "insert_ranked d [] = [d]"
| "insert_ranked d (x # xs) = (if ranks_before x d then x # insert_ranked d xs else d # x # xs)"

text \<open>Modelled from the spec: the sort of the merge policy, by repeated insertion.\<close>

definition rank :: "Document list \<Rightarrow> Document list" where
  "rank ds = foldr insert_ranked ds []"

text \<open>
  Modelled from the spec: the retriever's one failure, RetrievalEmpty of the error
  taxonomy (section 7).
\<close>

datatype retrieval_error = RetrievalEmpty

text \<open>
  Modelled from the spec: the Multi-Source Retriever's merge (section 4.5), which is
  server code missing from the sources. Each source answers with its normalized
  documents or is unreachable (\<open>None\<close>); the documents of the reachable sources are
  concatenated, those violating the hard bounds are filtered out, the rest is ranked
  and truncated to \<open>limit\<close>; the retrieval fails when every source is unreachable or
  nothing survives.
\<close>

definition retrieve ::
  "(Document \<Rightarrow> jsstring \<Rightarrow> bool) \<Rightarrow> ConstraintSet \<Rightarrow> nat \<Rightarrow> Document list option list \<Rightarrow>
   retrieval_error + Document list" where
  "retrieve has_tag cs limit answers =
     (let merged = concat (map (\<lambda>a. case a of None \<Rightarrow> [] | Some ds \<Rightarrow> ds) answers);
          kept = take limit (rank (filter (within_bounds has_tag cs) merged))
      in if list_all (\<lambda>a. a = None) answers \<or> kept = [] then Inl RetrievalEmpty else Inr kept)"

section \<open>Notions used in the statements\<close>

subsection \<open>Transcripts\<close>

text \<open>
  The text one recognition result contributes, and the texts an event contributes to
  the finalized and to the live transcript: the results from \<open>resultIndex\<close> on that
  carry the final flag, respectively those that do not.
\<close>

definition segment :: "SpeechResult \<Rightarrow> jsstring" where
  "segment r = trim (transcript r) @ js '' ''"

definition final_text :: "SpeechEvent \<Rightarrow> jsstring" where
  "final_text event =
     concat (map segment (filter isFinal (drop (resultIndex event) (results event))))"

definition interim_text :: "SpeechEvent \<Rightarrow> jsstring" where
  "interim_text event =
     concat (map segment (filter (\<lambda>r. \<not> isFinal r) (drop (resultIndex event) (results event))))"

text \<open>Extending the finalized transcript by a final text, joined by a space.\<close>

definition append_final :: "jsstring \<Rightarrow> jsstring \<Rightarrow> jsstring" where
  "append_final prev final =
     (if final = [] then prev else if prev \<noteq> [] then prev @ js '' '' @ final else final)"

text \<open>The user message a final transcript of the channel becomes.\<close>

definition user_voice_message :: "jsstring \<Rightarrow> nat \<Rightarrow> Message" where
  "user_voice_message t now =
     \<lparr>message_id = UserMessage now, message_role = user, content = t, timestamp = now,
      isVoiceInput = Some True, metadata = None\<rparr>"

definition interim_event :: SpeechEvent where
  "interim_event = \<lparr>resultIndex = 0, results = [\<lparr>transcript = js ''hello'', isFinal = False\<rparr>]\<rparr>"

definition final_event :: SpeechEvent where
  "final_event = \<lparr>resultIndex = 0, results = [\<lparr>transcript = js '' hi '', isFinal = True\<rparr>]\<rparr>"

subsection \<open>Step log\<close>

definition stage_order :: "jsstring list" where
  "stage_order = [js ''router'', js ''planner'', js ''retriever'', js ''answerer'']"

subsection \<open>Failed requests\<close>

definition request_failed :: "'a fetch_result \<Rightarrow> bool" where
  "request_failed response = (case response of Json body \<Rightarrow> False | _ \<Rightarrow> True)"

definition agent_unreachable_message :: "nat \<Rightarrow> Message" where
  "agent_unreachable_message now =
     \<lparr>message_id = AgentErrorMessage now, message_role = assistant,
      content = js ''I'm having trouble reaching the product agent right now.'',
      timestamp = now, isVoiceInput = None, metadata = None\<rparr>"

subsection \<open>Playback runs\<close>







subsection \<open>Recording sessions\<close>

text \<open>A chat that is recording, with the channel open.\<close>

definition streaming_chat :: VoiceChat where
  "streaming_chat = initialVoiceChat\<lparr>isRecording := True, isRecordingRef := True,
     status := recording, wsRef := Some OPEN, mediaRecorderRef := Some rec_recording\<rparr>"

definition microphone_denied_alert :: jsstring where
  "microphone_denied_alert =
     js ''Microphone access denied. Please allow microphone access in your browser settings.''"

subsection \<open>Documents and samples\<close>

definition no_tags :: "Document \<Rightarrow> jsstring \<Rightarrow> bool" where
  "no_tags d t = False"

definition under_fifteen :: ConstraintSet where
  "under_fifteen = \<lparr>min_price = None, max_price = Some 15, tags = [], brands = []\<rparr>"

definition soap :: "real \<Rightarrow> real \<Rightarrow> Document" where
  "soap p s = \<lparr>document_id = js ''B01'', document_title = js ''Soap'', document_price = p,
     document_rating = 4, document_rating_count = 10, document_brand = js ''Acme'',
     document_material = js ''Eco'', document_content = js ''A soap'', score = s,
     provenance = Private (js ''B01'') (js ''Catalog'')\<rparr>"

text \<open>A sample that is a finite value between \<open>-1\<close> and \<open>1\<close>.\<close>

definition within_unit :: "number \<Rightarrow> bool" where
  "within_unit x = (case x of Finite r \<Rightarrow> - 1 \<le> r \<and> r \<le> 1 | _ \<Rightarrow> False)"

subsection \<open>Voices\<close>

text \<open>
  The responses after which the built-in voices are used, and the voice the agent's
  settings fall back to: the second of the list if there is one, else the first.
\<close>

definition loads_defaults :: "VoiceOption list fetch_result \<Rightarrow> bool" where
  "loads_defaults response = (case response of Json voices \<Rightarrow> voices = [] | _ \<Rightarrow> True)"

definition agent_fallback :: "VoiceOption list \<Rightarrow> VoiceOption" where
  "agent_fallback voices = (if 1 < length voices then voices ! 1 else voices ! 0)"

definition voice_a :: VoiceOption where
  "voice_a = \<lparr>voice_id = js ''a'', voice_name = js ''Ann'', voice_language = js ''en''\<rparr>"

definition voice_b :: VoiceOption where
  "voice_b = \<lparr>voice_id = js ''b'', voice_name = js ''Bob'', voice_language = js ''fr''\<rparr>"

section \<open>Interim and final transcripts\<close>

lemma onresult_loop_eq:
  "onresult_loop rs i interim final =
     (interim @ concat (map segment (filter (\<lambda>r. \<not> isFinal r) (drop i rs))),
      final @ concat (map segment (filter isFinal (drop i rs))))"
proof (induction rs i interim final rule: onresult_loop.induct)
  case (1 rs i interim final)
  show ?case
  proof (cases "i < length rs")
    case False
    then show ?thesis by (subst onresult_loop.simps) simp
  next
    case True
    then have d: "drop i rs = rs ! i # drop (i + 1) rs" by (simp add: Cons_nth_drop_Suc)
    show ?thesis
    proof (cases "isFinal (rs ! i)")
      case True
      with \<open>i < length rs\<close> 1(1) show ?thesis
        by (subst onresult_loop.simps) (simp add: d segment_def [abs_def] Let_def)
    next
      case False
      with \<open>i < length rs\<close> 1(2) show ?thesis
        by (subst onresult_loop.simps) (simp add: d segment_def [abs_def] Let_def)
    qed
  qed
qed

lemma onresult_texts:
  "onresult_loop (results event) (resultIndex event) [] [] = (interim_text event, final_text event)"
  by (simp add: onresult_loop_eq interim_text_def final_text_def)

lemma finalTranscript_onresult:
  "finalTranscript (onresult st event) = append_final (finalTranscript st) (final_text event)"
proof -
  define interim where "interim = interim_text event"
  define final where "final = final_text event"
  have "onresult_loop (results event) (resultIndex event) [] [] = (interim, final)"
    by (simp add: onresult_texts interim_def final_def)
  then have "finalTranscript (onresult st event) = append_final (finalTranscript st) final"
    by (simp add: onresult_def append_final_def Let_def)
  then show ?thesis by (simp add: final_def)
qed

lemma liveTranscript_onresult:
  "liveTranscript (onresult st event) =
     (if interim_text event \<noteq> [] then interim_text event else liveTranscript st)"
proof -
  define interim where "interim = interim_text event"
  define final where "final = final_text event"
  have "onresult_loop (results event) (resultIndex event) [] [] = (interim, final)"
    by (simp add: onresult_texts interim_def final_def)
  then have "liveTranscript (onresult st event) =
     (if interim \<noteq> [] then interim else liveTranscript st)"
    by (simp add: onresult_def Let_def)
  then show ?thesis by (simp add: interim_def)
qed

lemma finalTranscript_onresults:
  "finalTranscript (foldl onresult st events) =
     foldl append_final (finalTranscript st) (map final_text events)"
  by (induction events arbitrary: st) (simp_all add: finalTranscript_onresult)

lemma stopRecording_transcripts:
  "finalTranscript (stopRecording st) = or_else (finalTranscript st) (liveTranscript st)"
  "liveTranscript (stopRecording st) = []"
  by (auto simp: stopRecording_def Let_def split: option.splits recorder_state.splits)

lemma onmessage_interim:
  "messages (onmessage vc lang (Transcript t False) now response) = messages vc"
  "fetched (onmessage vc lang (Transcript t False) now response) = fetched vc"
  "realtimeTranscript (onmessage vc lang (Transcript t False) now response) = t"
  by (simp_all add: onmessage_def Let_def)

lemma messages_requestAgentResponse:
  "\<exists>reply. messages (requestAgentResponse vc lang q now response) = messages vc @ reply"
  by (cases response) (simp_all add: requestAgentResponse_def Let_def)

text \<open>
  Claim C1, as amended. While recognition results arrive, the finalized transcript is
  extended only by the segments the source delivered with the final flag set, and
  interim segments only replace the live transcript (the unstable tail); in the chat, an
  interim transcript message only replaces the realtime transcript, and a transcript
  message becomes a user message only if it is marked final and has text. On stop,
  however, the assistant promotes the live transcript to the finalized transcript when
  no finalized text exists, and clears the live transcript.
\<close>

theorem transcript_finalization:
  "finalTranscript (foldl onresult st events) =
     foldl append_final (finalTranscript st) (map final_text events) \<and>
   liveTranscript (onresult st event) =
     (if interim_text event \<noteq> [] then interim_text event else liveTranscript st) \<and>
   finalTranscript (stopRecording st) = or_else (finalTranscript st) (liveTranscript st) \<and>
   liveTranscript (stopRecording st) = [] \<and>
   messages (onmessage vc lang (Transcript t False) now response) = messages vc \<and>
   fetched (onmessage vc lang (Transcript t False) now response) = fetched vc \<and>
   realtimeTranscript (onmessage vc lang (Transcript t False) now response) = t \<and>
   (messages (onmessage vc lang (Transcript t is_final) now response) \<noteq> messages vc \<longrightarrow>
      is_final \<and> t \<noteq> [] \<and>
      take (length (messages vc) + 1) (messages (onmessage vc lang (Transcript t is_final) now response))
        = messages vc @ [user_voice_message t now])"
proof -
  have appended: "messages (onmessage vc lang (Transcript t is_final) now response) \<noteq> messages vc \<longrightarrow>
      is_final \<and> t \<noteq> [] \<and>
      take (length (messages vc) + 1) (messages (onmessage vc lang (Transcript t is_final) now response))
        = messages vc @ [user_voice_message t now]"
  proof (cases "is_final \<and> t \<noteq> []")
    case True
    let ?vc = "vc\<lparr>isTranscribing := False, status := ready,
                  messages := messages vc @ [user_voice_message t now], realtimeTranscript := []\<rparr>"
    have "onmessage vc lang (Transcript t is_final) now response =
          requestAgentResponse ?vc lang t now response"
      using True by (simp add: onmessage_def Let_def user_voice_message_def)
    moreover obtain reply where
      "messages (requestAgentResponse ?vc lang t now response) = messages ?vc @ reply"
      using messages_requestAgentResponse by blast
    ultimately show ?thesis using True by simp
  next
    case False
    then show ?thesis by (auto simp: onmessage_def Let_def)
  qed
  show ?thesis
    using appended finalTranscript_onresults [of st events] liveTranscript_onresult [of st event]
      stopRecording_transcripts [of st] onmessage_interim [of vc lang t now response]
    by blast
qed

text \<open>
  An interim \<open>hello\<close> followed by a final \<open>hi\<close> leaves \<open>hi\<close> as the finalized transcript;
  a final transcript message of the channel is appended as a user message.
\<close>

theorem transcript_finalization_witness:
  "finalTranscript (foldl onresult initialAssistant [interim_event, final_event]) = js ''hi '' \<and>
   liveTranscript (onresult initialAssistant interim_event) = js ''hello '' \<and>
   messages (onmessage initialVoiceChat (js ''de'') (Transcript (js ''hi'') True) 7 (Rejected []))
     \<noteq> messages initialVoiceChat \<and>
   take 1 (messages (onmessage initialVoiceChat (js ''de'') (Transcript (js ''hi'') True) 7 (Rejected [])))
     = [user_voice_message (js ''hi'') 7]"
  using transcript_finalization [of initialAssistant "[interim_event, final_event]" interim_event
      initialVoiceChat "js ''de''" "js ''hi''" 7 "Rejected []" True]
  by (simp add: interim_event_def final_event_def final_text_def interim_text_def segment_def
      append_final_def trim_def isWhiteSpace_def js_def initialAssistant_def initialVoiceChat_def
      onmessage_def requestAgentResponse_def user_voice_message_def Let_def)

text \<open>
  The claim as stated fails in the assistant: after a recording during which the
  recognizer delivered only the interim segment \<open>hello\<close>, the finalized transcript is
  still empty, and stopping makes that interim text the finalized transcript.
\<close>

theorem interim_promoted_counterexample:
  "filter isFinal (results interim_event) = [] \<and>
   finalTranscript (onresult (startRecording initialAssistant (Granted True)) interim_event) = [] \<and>
   finalTranscript
     (stopRecording (onresult (startRecording initialAssistant (Granted True)) interim_event))
     = js ''hello ''"
  by (simp add: finalTranscript_onresult liveTranscript_onresult stopRecording_transcripts
      final_text_def interim_text_def segment_def append_final_def or_else_def interim_event_def
      startRecording_def initialAssistant_def trim_def isWhiteSpace_def js_def)

section \<open>Order of the step log\<close>

lemma agentSteps_fetchQueryResults:
  "agentSteps (fetchQueryResults st capturedSteps q response) = agentSteps st"
  by (cases response) (simp_all add: fetchQueryResults_def query_failed_def Let_def)

lemma agentSteps_processStep:
  "agentSteps (processStep steps index capturedSteps response st) =
   agentSteps st @ map (\<lambda>step. step\<lparr>step_status := completed\<rparr>) (drop index steps)"
proof (induction steps index capturedSteps response st rule: processStep.induct)
  case (1 steps index capturedSteps response st)
  show ?case
  proof (cases "index < length steps")
    case True
    then show ?thesis
      using 1 by (subst processStep.simps) (simp add: Let_def Cons_nth_drop_Suc [symmetric])
  next
    case False
    then show ?thesis
      by (subst processStep.simps) (simp add: agentSteps_fetchQueryResults)
  qed
qed

lemma agentSteps_processStep_proto:
  "agentSteps (processStep_proto steps index st) =
   agentSteps st @ map (\<lambda>step. step\<lparr>step_status := completed\<rparr>) (drop index steps)"
proof (induction steps index st rule: processStep_proto.induct)
  case (1 steps index st)
  show ?case
  proof (cases "index < length steps")
    case True
    then show ?thesis
      using 1
      by (subst processStep_proto.simps) (simp add: Let_def Cons_nth_drop_Suc [symmetric])
  next
    case False
    then show ?thesis
      by (subst processStep_proto.simps) simp
  qed
qed

lemma mock_stages:
  "map node (map (\<lambda>step. step\<lparr>step_status := completed\<rparr>) (stepLog mockResult)) = stage_order"
  "map step_status (map (\<lambda>step. step\<lparr>step_status := completed\<rparr>) (stepLog mockResult))
     = [completed, completed, completed, completed]"
  by (simp_all add: mockResult_def stage_order_def)

text \<open>
  Claim C2. Whatever the state before and whatever the query request answers, a run of
  the processing leaves a step log of exactly four entries, one per stage, appended in
  the order router, planner, retriever, answerer, each marked completed; this holds for
  the assistant and for its prototype.
\<close>

theorem step_log_in_stage_order:
  "map node (agentSteps (processAudio st capturedSteps response)) = stage_order \<and>
   map step_status (agentSteps (processAudio st capturedSteps response))
     = [completed, completed, completed, completed] \<and>
   map node (agentSteps (processAudio_proto st)) = stage_order \<and>
   map step_status (agentSteps (processAudio_proto st))
     = [completed, completed, completed, completed]"
  using mock_stages
  by (simp add: processAudio_def processAudio_proto_def agentSteps_processStep
      agentSteps_processStep_proto)

text \<open>A first run from the initial state, with the query request failing.\<close>

theorem step_log_in_stage_order_witness:
  "map node (agentSteps (processAudio initialAssistant [] (Rejected []))) =
     [js ''router'', js ''planner'', js ''retriever'', js ''answerer''] \<and>
   map node (agentSteps (processAudio_proto initialAssistant)) =
     [js ''router'', js ''planner'', js ''retriever'', js ''answerer'']"
  using step_log_in_stage_order [of initialAssistant "[]" "Rejected []"]
  by (simp add: stage_order_def)

section \<open>A failed query request\<close>

text \<open>
  Claim C3, as amended. When the query request fails, the assistant shows its built-in
  mock result (with its products) in place of an answer and says so in an alert, and
  the chat appends an assistant message saying that the agent cannot be reached, which
  carries no retrieved documents and no citations.
\<close>

theorem failed_query_fallback:
  assumes "request_failed response" and "request_failed reply" and "trim queryText \<noteq> []"
  shows "result (fetchQueryResults st capturedSteps q response) = Some mockResult \<and>
         answerTranscript (fetchQueryResults st capturedSteps q response) = answer mockResult \<and>
         (\<exists>errorMessage. alerts (fetchQueryResults st capturedSteps q response) =
            alerts st @ [js ''API Error: '' @ errorMessage @ js ''. Showing mock data instead.'']) \<and>
         messages (requestAgentResponse vc lang queryText now reply)
           = messages vc @ [agent_unreachable_message now] \<and>
         \<not> isAgentResponding (requestAgentResponse vc lang queryText now reply)"
proof -
  have "result (fetchQueryResults st capturedSteps q response) = Some mockResult \<and>
        answerTranscript (fetchQueryResults st capturedSteps q response) = answer mockResult \<and>
        (\<exists>errorMessage. alerts (fetchQueryResults st capturedSteps q response) =
           alerts st @ [js ''API Error: '' @ errorMessage @ js ''. Showing mock data instead.''])"
    using assms(1)
    by (cases response)
       (simp_all add: request_failed_def fetchQueryResults_def query_failed_def Let_def)
  moreover have "messages (requestAgentResponse vc lang queryText now reply)
           = messages vc @ [agent_unreachable_message now] \<and>
         \<not> isAgentResponding (requestAgentResponse vc lang queryText now reply)"
    using assms(2,3)
    by (cases reply)
       (simp_all add: request_failed_def requestAgentResponse_def agent_unreachable_message_def
          Let_def)
  ultimately show ?thesis by simp
qed

text \<open>A server error for the assistant's query and a network failure for the chat's.\<close>

theorem failed_query_fallback_witness:
  "request_failed (NotOk 500 None :: QueryResponse fetch_result) \<and>
   request_failed (Rejected (js ''Failed to fetch'') :: AgentAPIResponse fetch_result) \<and>
   trim (js ''soap'') \<noteq> [] \<and>
   map_option products
     (result (fetchQueryResults initialAssistant [] (query mockResult) (NotOk 500 None)))
     = Some (products mockResult) \<and>
   alerts (fetchQueryResults initialAssistant [] (query mockResult) (NotOk 500 None))
     = [js ''API Error: Query failed. Showing mock data instead.''] \<and>
   map metadata (messages (requestAgentResponse initialVoiceChat (js ''de'') (js ''soap'') 7
      (Rejected (js ''Failed to fetch'')))) = [None]"
  using failed_query_fallback [of "NotOk 500 None" "Rejected (js ''Failed to fetch'')" "js ''soap''"
      initialAssistant "[]" "query mockResult" initialVoiceChat "js ''de''" 7]
  by (simp add: request_failed_def trim_def js_def isWhiteSpace_def initialAssistant_def
      initialVoiceChat_def agent_unreachable_message_def fetchQueryResults_def query_failed_def
      or_else_def Let_def)

text \<open>
  The claim as stated fails in the assistant: when the query request is rejected, the
  result it presents holds the three products of the mock result, not an empty list.
\<close>

theorem failed_query_counterexample:
  "map_option products (result (fetchQueryResults initialAssistant [] (query mockResult)
      (Rejected (js ''Failed to fetch'')))) = Some (products mockResult) \<and>
   length (products mockResult) = 3"
  by (simp add: fetchQueryResults_def query_failed_def Let_def mockResult_def)

section \<open>Toggling synthesized playback\<close>


















section \<open>Stopping a recording\<close>

text \<open>
  Claim C5, as amended. In the chat, the stop operation moves the session to
  transcribing and ends the recording, and it sends the stop signal to the Transcript
  Source exactly when the channel is open, with the user's current language; the
  earlier version does the same from the recorder's stop handler, whose stop signal
  carries the language the user had when the recording was started. In the assistant,
  the stop operation stops the recorder and the recognizer and moves the session
  directly to idle.
\<close>

theorem stop_recording_transitions:
  "status (stopRecording_vc vc) = transcribing \<and> isTranscribing (stopRecording_vc vc) \<and>
   \<not> isRecording (stopRecording_vc vc) \<and>
   sent (stopRecording_vc vc) =
     (if wsRef vc = Some OPEN then sent vc @ [Stop (language (userSettings vc))] else sent vc) \<and>
   (mediaRecorderRef vc = Some rec_recording \<longrightarrow>
      status (stopRecording_mr vc userLanguage) = transcribing \<and>
      isTranscribing (stopRecording_mr vc userLanguage) \<and>
      \<not> isRecording (stopRecording_mr vc userLanguage) \<and>
      sent (stopRecording_mr vc userLanguage) =
        (if wsRef vc = Some OPEN then sent vc @ [Stop userLanguage] else sent vc)) \<and>
   recordingState (stopRecording st) = Idle \<and>
   recorder (stopRecording st) = map_option (\<lambda>r. inactive) (recorder st) \<and>
   recognitionRef (stopRecording st) = map_option (\<lambda>r. stopped) (recognitionRef st) \<and>
   recordingState (stopRecording_proto st) = Idle"
proof -
  have vc: "status (stopRecording_vc vc) = transcribing \<and> isTranscribing (stopRecording_vc vc) \<and>
      \<not> isRecording (stopRecording_vc vc) \<and>
      sent (stopRecording_vc vc) =
        (if wsRef vc = Some OPEN then sent vc @ [Stop (language (userSettings vc))] else sent vc)"
    by (simp add: stopRecording_vc_def Let_def)
  have mr: "mediaRecorderRef vc = Some rec_recording \<longrightarrow>
      status (stopRecording_mr vc userLanguage) = transcribing \<and>
      isTranscribing (stopRecording_mr vc userLanguage) \<and>
      \<not> isRecording (stopRecording_mr vc userLanguage) \<and>
      sent (stopRecording_mr vc userLanguage) =
        (if wsRef vc = Some OPEN then sent vc @ [Stop userLanguage] else sent vc)"
    by (simp add: stopRecording_mr_def onstop_mr_def Let_def)
  have a1: "recordingState (stopRecording st) = Idle"
    by (auto simp: stopRecording_def Let_def split: option.splits recorder_state.splits)
  have a2: "recorder (stopRecording st) = map_option (\<lambda>r. inactive) (recorder st)"
    by (auto simp: stopRecording_def Let_def split: option.splits recorder_state.splits)
  have a3: "recognitionRef (stopRecording st) = map_option (\<lambda>r. stopped) (recognitionRef st)"
    by (auto simp: stopRecording_def Let_def split: option.splits recorder_state.splits)
  have a4: "recordingState (stopRecording_proto st) = Idle"
    by (simp add: stopRecording_proto_def Let_def split: option.splits recorder_state.splits)
  show ?thesis using vc mr a1 a2 a3 a4 by blast
qed

text \<open>
  A chat recording in English over an open channel sends one stop message and is then
  transcribing; in the earlier version, a recording started while the user's language
  was French sends a French stop message although the language is English by now. An
  assistant that has just started recording is idle after the stop.
\<close>

theorem stop_recording_transitions_witness:
  "mediaRecorderRef streaming_chat = Some rec_recording \<and>
   status (stopRecording_vc streaming_chat) = transcribing \<and>
   sent (stopRecording_vc streaming_chat) = [Stop (js ''en'')] \<and>
   status (stopRecording_mr streaming_chat (js ''fr'')) = transcribing \<and>
   sent (stopRecording_mr streaming_chat (js ''fr'')) = [Stop (js ''fr'')] \<and>
   recordingState (stopRecording (startRecording initialAssistant (Granted True))) = Idle"
  using stop_recording_transitions
          [of streaming_chat "js ''fr''" "startRecording initialAssistant (Granted True)"]
  by (simp add: streaming_chat_def initialVoiceChat_def)

text \<open>
  The claim as stated fails twice: the assistant goes from recording directly to idle,
  and a chat whose channel has closed while it was recording sends no stop signal.
\<close>

theorem stop_recording_counterexample:
  "recordingState (startRecording initialAssistant (Granted True)) = Recording \<and>
   recordingState (stopRecording (startRecording initialAssistant (Granted True))) = Idle \<and>
   status (streaming_chat\<lparr>wsRef := Some CLOSED\<rparr>) = recording \<and>
   sent (stopRecording_vc (streaming_chat\<lparr>wsRef := Some CLOSED\<rparr>)) = []"
  by (simp add: startRecording_def stopRecording_def initialAssistant_def Let_def
      streaming_chat_def initialVoiceChat_def stopRecording_vc_def)

section \<open>Empty queries\<close>

text \<open>
  Claim C6. A query text that is empty after trimming never reaches the pipeline:
  \<open>requestAgentResponse\<close> returns without touching the state, so no request is
  submitted, whether the text arrives as a transcript of the channel or is typed.
\<close>

theorem empty_query_not_submitted:
  assumes "trim queryText = []"
  shows "requestAgentResponse st lang queryText now response = st \<and>
         fetched (onmessage st lang (Transcript queryText is_final) now response) = fetched st \<and>
         (input st = queryText \<longrightarrow> sendTextMessage st now response = st)"
proof -
  have r: "\<And>s l. requestAgentResponse s l queryText now response = s"
    using assms by (simp add: requestAgentResponse_def)
  have "fetched (onmessage st lang (Transcript queryText is_final) now response) = fetched st"
    by (simp add: onmessage_def r Let_def)
  moreover have "input st = queryText \<longrightarrow> sendTextMessage st now response = st"
    using assms by (simp add: sendTextMessage_def)
  ultimately show ?thesis using r by simp
qed

text \<open>Three spaces, as a direct call, as a final transcript and as typed input.\<close>

theorem empty_query_not_submitted_witness:
  "trim (js ''   '') = [] \<and>
   requestAgentResponse initialVoiceChat (js ''de'') (js ''   '') 7 (Rejected []) = initialVoiceChat \<and>
   fetched (onmessage initialVoiceChat (js ''de'') (Transcript (js ''   '') True) 7 (Rejected [])) = [] \<and>
   sendTextMessage (initialVoiceChat\<lparr>input := js ''   ''\<rparr>) 7 (Rejected [])
     = initialVoiceChat\<lparr>input := js ''   ''\<rparr>"
  using empty_query_not_submitted [of "js ''   ''" initialVoiceChat "js ''de''" 7 "Rejected []" True]
        empty_query_not_submitted
          [of "js ''   ''" "initialVoiceChat\<lparr>input := js ''   ''\<rparr>" "js ''de''" 7 "Rejected []" True]
  by (simp add: trim_def js_def isWhiteSpace_def initialVoiceChat_def)

section \<open>Microphone access declined\<close>

text \<open>
  Claim C7. If the user declines microphone access, the start operation changes nothing
  but the alerts: an idle session stays idle, no recorder is started, and the message
  that microphone access was denied is shown. This holds for the assistant and for its
  prototype.
\<close>

theorem microphone_denied_stays_idle:
  assumes "recordingState st = Idle"
  shows "startRecording st Denied = st\<lparr>alerts := alerts st @ [microphone_denied_alert]\<rparr> \<and>
         recordingState (startRecording st Denied) = Idle \<and>
         recorder (startRecording st Denied) = recorder st \<and>
         startRecording_proto st Denied = st\<lparr>alerts := alerts st @ [microphone_denied_alert]\<rparr> \<and>
         recordingState (startRecording_proto st Denied) = Idle \<and>
         recorder (startRecording_proto st Denied) = recorder st"
  using assms
  by (simp add: startRecording_def startRecording_proto_def microphone_denied_alert_def)

text \<open>The initial state, where a granted microphone would have started a recording.\<close>

theorem microphone_denied_stays_idle_witness:
  "recordingState initialAssistant = Idle \<and>
   recordingState (startRecording initialAssistant Denied) = Idle \<and>
   recorder (startRecording initialAssistant Denied) = None \<and>
   alerts (startRecording initialAssistant Denied) = [microphone_denied_alert] \<and>
   recordingState (startRecording initialAssistant (Granted True)) = Recording"
  using microphone_denied_stays_idle [of initialAssistant]
  by (simp add: initialAssistant_def startRecording_def)

section \<open>Maximum price\<close>

lemma set_insert_ranked: "set (insert_ranked d ds) = insert d (set ds)"
  by (induction ds) auto

lemma set_rank: "set (rank ds) = set ds"
  unfolding rank_def by (induction ds) (simp_all add: set_insert_ranked)

lemma retrieve_within_bounds:
  assumes "retrieve has_tag cs limit answers = Inr docs" and "d \<in> set docs"
  shows "within_bounds has_tag cs d"
proof -
  let ?merged = "concat (map (\<lambda>a. case a of None \<Rightarrow> [] | Some ds \<Rightarrow> ds) answers)"
  have "docs = take limit (rank (filter (within_bounds has_tag cs) ?merged))"
    using assms(1) by (simp add: retrieve_def Let_def split: if_splits)
  then have "d \<in> set (rank (filter (within_bounds has_tag cs) ?merged))"
    using assms(2) by (auto dest: in_set_takeD)
  then show ?thesis by (simp add: set_rank)
qed

lemma mock_products_within_budget:
  "price_max (price (constraints mockResult)) = Some 15"
  "list_all (\<lambda>p. product_price p \<le> 15) (products mockResult)"
  by (simp_all add: mockResult_def)

text \<open>
  Claim C8. Every document the retriever returns for a ConstraintSet whose maximum price
  is 15 costs at most 15; and the mock result, the one result the client builds itself,
  has the maximum price 15 and only products that cost at most 15.
\<close>

theorem returned_documents_within_max_price:
  assumes "max_price cs = Some 15"
      and "retrieve has_tag cs limit answers = Inr docs"
      and "d \<in> set docs"
  shows "document_price d \<le> 15 \<and>
         price_max (price (constraints mockResult)) = Some 15 \<and>
         list_all (\<lambda>p. product_price p \<le> 15) (products mockResult)"
proof -
  have "within_bounds has_tag cs d" using assms(2,3) by (rule retrieve_within_bounds)
  then have "document_price d \<le> 15" using assms(1) by (simp add: within_bounds_def)
  then show ?thesis using mock_products_within_budget by simp
qed

text \<open>
  Three sources, one of them unreachable: the document priced 20 is dropped although it
  has the best score, and the other two are returned in score order.
\<close>

theorem returned_documents_within_max_price_witness:
  "max_price under_fifteen = Some 15 \<and>
   retrieve no_tags under_fifteen 5 [Some [soap 20 0.9, soap 12 0.5], None, Some [soap 9 0.7]]
     = Inr [soap 9 0.7, soap 12 0.5] \<and>
   soap 12 0.5 \<in> set [soap 9 0.7, soap 12 0.5] \<and>
   document_price (soap 12 0.5) \<le> 15"
  using returned_documents_within_max_price [of under_fifteen no_tags 5
      "[Some [soap 20 0.9, soap 12 0.5], None, Some [soap 9 0.7]]" "[soap 9 0.7, soap 12 0.5]"
      "soap 12 0.5"]
  by (simp add: retrieve_def within_bounds_def rank_def ranks_before_def under_fifteen_def
      soap_def Let_def)

section \<open>The PCM encoder stays within 16 bits\<close>

lemma clamp_sample_cases:
  "(x = NaN \<and> clamp_sample x = NaN) \<or> within_unit (clamp_sample x)"
  by (cases x) (auto simp: clamp_sample_def within_unit_def)

lemma truncate_real_bounds:
  assumes "- 32768 \<le> v" and "v \<le> 32767"
  shows "- 32768 \<le> truncate_real v \<and> truncate_real v \<le> 32767"
proof (cases "v < 0")
  case True
  have "\<lceil>v\<rceil> \<le> 0" using True by (simp add: ceiling_le_iff)
  moreover have "- 32768 \<le> \<lceil>v\<rceil>" using assms(1) by (simp add: le_ceiling_iff)
  ultimately show ?thesis using True by (simp add: truncate_real_def)
next
  case False
  have "0 \<le> \<lfloor>v\<rfloor>" using False by simp
  moreover have "\<lfloor>v\<rfloor> \<le> 32767" using assms(2) by (simp add: floor_le_iff)
  ultimately show ?thesis using False by (simp add: truncate_real_def)
qed

lemma scaled_integer_bounds:
  "- 32768 \<le> ToIntegerOrZero (scale_sample (clamp_sample x)) \<and>
   ToIntegerOrZero (scale_sample (clamp_sample x)) \<le> 32767"
proof -
  consider "x = NaN" "clamp_sample x = NaN" | "within_unit (clamp_sample x)"
    using clamp_sample_cases by blast
  then show ?thesis
  proof cases
    case 1
    then show ?thesis by (simp add: scale_sample_def)
  next
    case 2
    then obtain r where r: "clamp_sample x = Finite r" "- 1 \<le> r" "r \<le> 1"
      by (auto simp: within_unit_def split: number.splits)
    show ?thesis
    proof (cases "r < 0")
      case True
      then have "scale_sample (Finite r) = Finite (r * 32768)" by (simp add: scale_sample_def)
      moreover have "- 32768 \<le> r * 32768" "r * 32768 \<le> 32767" using r True by auto
      ultimately show ?thesis using r(1) truncate_real_bounds by simp
    next
      case False
      then have "scale_sample (Finite r) = Finite (r * 32767)" by (simp add: scale_sample_def)
      moreover have "- 32768 \<le> r * 32767" "r * 32767 \<le> 32767" using r False by auto
      ultimately show ?thesis using r(1) truncate_real_bounds by simp
    qed
  qed
qed

lemma sint_ToInt16_exact:
  assumes "- 32768 \<le> ToIntegerOrZero v" and "ToIntegerOrZero v \<le> 32767"
  shows "sint (ToInt16 v) = ToIntegerOrZero v"
proof -
  have "sint (word_of_int (ToIntegerOrZero v) :: 16 word) = signed_take_bit 15 (ToIntegerOrZero v)"
    by (simp add: sint_sbintrunc')
  also have "\<dots> = ToIntegerOrZero v"
    using assms by (intro signed_take_bit_int_eq_self) auto
  finally show ?thesis by (simp add: ToInt16_def)
qed

lemma pcm_loop_eq:
  "length pcmData = length inputData \<Longrightarrow> i \<le> length inputData \<Longrightarrow>
   pcm_loop inputData i pcmData =
     take i pcmData @ map (\<lambda>x. ToInt16 (scale_sample (clamp_sample x))) (drop i inputData)"
proof (induction inputData i pcmData rule: pcm_loop.induct)
  case (1 inputData i pcmData)
  let ?f = "\<lambda>x. ToInt16 (scale_sample (clamp_sample x))"
  show ?case
  proof (cases "i < length inputData")
    case True
    have "pcm_loop inputData i pcmData =
          pcm_loop inputData (i + 1) (pcmData[i := ?f (inputData ! i)])"
      using True by (subst pcm_loop.simps) simp
    also have "\<dots> = take (i + 1) (pcmData[i := ?f (inputData ! i)]) @
                     map ?f (drop (i + 1) inputData)"
      using True 1 by simp
    also have "\<dots> = take i pcmData @ map ?f (drop i inputData)"
      using True 1(2) by (simp add: take_Suc_conv_app_nth Cons_nth_drop_Suc [symmetric])
    finally show ?thesis .
  next
    case False
    then show ?thesis using 1(2,3) by (subst pcm_loop.simps) simp
  qed
qed

lemma encode_pcm_map:
  "encode_pcm inputData = map (\<lambda>x. ToInt16 (scale_sample (clamp_sample x))) inputData"
  by (simp add: encode_pcm_def pcm_loop_eq)

text \<open>
  Claim C9. In the PCM encoder every input sample is clamped to \<open>[-1, 1]\<close> before it is
  scaled (a NaN stays NaN and is stored as 0), so every sample the encoder emits is the
  exact integer part of the scaled value, without wrap-around, and lies within the
  Int16 range \<open>[-32768, 32767]\<close>; the output has one sample per input sample.
\<close>

theorem pcm_samples_within_int16:
  assumes "i < length inputData"
  shows "(inputData ! i = NaN \<or> within_unit (clamp_sample (inputData ! i))) \<and>
         length (encode_pcm inputData) = length inputData \<and>
         sint (encode_pcm inputData ! i) =
           ToIntegerOrZero (scale_sample (clamp_sample (inputData ! i))) \<and>
         - 32768 \<le> sint (encode_pcm inputData ! i) \<and> sint (encode_pcm inputData ! i) \<le> 32767"
proof -
  let ?x = "inputData ! i"
  have exact: "sint (encode_pcm inputData ! i) = ToIntegerOrZero (scale_sample (clamp_sample ?x))"
    using assms scaled_integer_bounds [of ?x] by (simp add: encode_pcm_map sint_ToInt16_exact)
  moreover have "inputData ! i = NaN \<or> within_unit (clamp_sample ?x)"
    using clamp_sample_cases [of ?x] by blast
  ultimately show ?thesis
    using scaled_integer_bounds [of ?x] by (simp add: encode_pcm_map)
qed

text \<open>
  The sample \<open>-2\<close> at index 1 is clamped to \<open>-1\<close> and stored as \<open>-32768\<close>.
\<close>

theorem pcm_samples_within_int16_witness:
  "(1::nat) < length [Finite (1/2), Finite (- 2), NaN, PosInf] \<and>
   within_unit (clamp_sample ([Finite (1/2), Finite (- 2), NaN, PosInf] ! 1)) \<and>
   sint (encode_pcm [Finite (1/2), Finite (- 2), NaN, PosInf] ! 1) = - 32768"
  using pcm_samples_within_int16 [of 1 "[Finite (1/2), Finite (- 2), NaN, PosInf]"]
  by (simp add: clamp_sample_def scale_sample_def truncate_real_def within_unit_def)

section \<open>Loading the voices\<close>

lemma find_voice_id:
  "find (\<lambda>voice. voice_id voice = v) voices = Some m \<Longrightarrow> voice_id m = v \<and> m \<in> set voices"
  by (auto simp: find_Some_iff)

lemma syncSettingsWithVoices_member:
  assumes "fb \<in> set voices"
  shows "voiceId (syncSettingsWithVoices voices prev (Some fb)) \<in> voice_id ` set voices"
proof (cases "find (\<lambda>voice. voice_id voice = voiceId prev) voices")
  case None
  then show ?thesis using assms by (simp add: syncSettingsWithVoices_def)
next
  case (Some m)
  then have "voice_id m = voiceId prev" "m \<in> set voices" using find_voice_id by blast+
  then have "voiceId prev \<in> voice_id ` set voices" by (metis imageI)
  then show ?thesis using Some by (simp add: syncSettingsWithVoices_def)
qed

lemma syncSettingsWithVoices_fallback:
  assumes "voiceId prev \<notin> voice_id ` set voices"
  shows "voiceId (syncSettingsWithVoices voices prev (Some fb)) = voice_id fb"
proof -
  have "find (\<lambda>voice. voice_id voice = voiceId prev) voices = None"
    using assms by (force simp: find_None_iff)
  then show ?thesis by (simp add: syncSettingsWithVoices_def)
qed

text \<open>
  Claim C10, as amended. After the voices are loaded the list of available voices is
  never empty: a failed request, a response that is not OK and an empty list all load
  the built-in voices. After a non-empty list is loaded, the user's and the agent's
  voice identifiers both name a voice of that list; a user voice that is not in the
  list falls back to the first listed voice, an agent voice that is not in the list to
  the second listed voice if there is one and else to the first.
\<close>

theorem fetchVoices_available:
  "availableVoices (fetchVoices st response) \<noteq> [] \<and>
   (loads_defaults response \<longrightarrow> availableVoices (fetchVoices st response) = DEFAULT_VOICES) \<and>
   (response = Json voices \<and> voices \<noteq> [] \<longrightarrow>
      availableVoices (fetchVoices st response) = voices \<and>
      voiceId (userSettings (fetchVoices st response)) \<in> voice_id ` set voices \<and>
      voiceId (agentSettings (fetchVoices st response)) \<in> voice_id ` set voices \<and>
      (voiceId (userSettings st) \<notin> voice_id ` set voices \<longrightarrow>
         voiceId (userSettings (fetchVoices st response)) = voice_id (voices ! 0)) \<and>
      (voiceId (agentSettings st) \<notin> voice_id ` set voices \<longrightarrow>
         voiceId (agentSettings (fetchVoices st response)) = voice_id (agent_fallback voices)))"
proof -
  have nonempty: "availableVoices (fetchVoices st response) \<noteq> []"
    by (cases response) (auto simp: fetchVoices_def DEFAULT_VOICES_def Let_def)
  have defaults: "loads_defaults response \<Longrightarrow>
      availableVoices (fetchVoices st response) = DEFAULT_VOICES"
    by (cases response) (auto simp: fetchVoices_def loads_defaults_def Let_def)
  have loaded: "availableVoices (fetchVoices st (Json voices)) = voices \<and>
      voiceId (userSettings (fetchVoices st (Json voices))) \<in> voice_id ` set voices \<and>
      voiceId (agentSettings (fetchVoices st (Json voices))) \<in> voice_id ` set voices \<and>
      (voiceId (userSettings st) \<notin> voice_id ` set voices \<longrightarrow>
         voiceId (userSettings (fetchVoices st (Json voices))) = voice_id (voices ! 0)) \<and>
      (voiceId (agentSettings st) \<notin> voice_id ` set voices \<longrightarrow>
         voiceId (agentSettings (fetchVoices st (Json voices))) = voice_id (agent_fallback voices))"
    if ne: "voices \<noteq> []"
  proof -
    have first: "elem_at voices 0 = Some (voices ! 0)" "voices ! 0 \<in> set voices"
      using ne by (auto simp: elem_at_def)
    have second: "(case elem_at voices 1 of Some v \<Rightarrow> Some v | None \<Rightarrow> elem_at voices 0)
                    = Some (agent_fallback voices)" "agent_fallback voices \<in> set voices"
      using ne by (auto simp: elem_at_def agent_fallback_def)
    have u: "userSettings (fetchVoices st (Json voices)) =
             syncSettingsWithVoices voices (userSettings st) (Some (voices ! 0))"
      using ne first by (simp add: fetchVoices_def Let_def)
    have a: "agentSettings (fetchVoices st (Json voices)) =
             syncSettingsWithVoices voices (agentSettings st) (Some (agent_fallback voices))"
      using ne second by (simp add: fetchVoices_def Let_def)
    have v: "availableVoices (fetchVoices st (Json voices)) = voices"
      using ne by (simp add: fetchVoices_def Let_def)
    show ?thesis
      using u a v first(2) second(2)
      by (simp add: syncSettingsWithVoices_member syncSettingsWithVoices_fallback)
  qed
  show ?thesis using nonempty defaults loaded by blast
qed

text \<open>
  Two voices unknown to the initial settings are loaded: the user gets the first, the
  agent the second; a rejected request loads the built-in voices.
\<close>

theorem fetchVoices_available_witness:
  "Json [voice_a, voice_b] = Json [voice_a, voice_b] \<and> [voice_a, voice_b] \<noteq> [] \<and>
   voiceId (userSettings initialVoiceChat) \<notin> voice_id ` set [voice_a, voice_b] \<and>
   voiceId (agentSettings initialVoiceChat) \<notin> voice_id ` set [voice_a, voice_b] \<and>
   loads_defaults (Rejected (js ''Failed to fetch'') :: VoiceOption list fetch_result) \<and>
   availableVoices (fetchVoices initialVoiceChat (Json [voice_a, voice_b])) = [voice_a, voice_b] \<and>
   voiceId (userSettings (fetchVoices initialVoiceChat (Json [voice_a, voice_b]))) = js ''a'' \<and>
   voiceId (agentSettings (fetchVoices initialVoiceChat (Json [voice_a, voice_b]))) = js ''b'' \<and>
   availableVoices (fetchVoices initialVoiceChat (Rejected (js ''Failed to fetch'')))
     = DEFAULT_VOICES"
  using fetchVoices_available [of initialVoiceChat "Json [voice_a, voice_b]" "[voice_a, voice_b]"]
        fetchVoices_available [of initialVoiceChat "Rejected (js ''Failed to fetch'')" "[]"]
  by (simp add: initialVoiceChat_def voice_a_def voice_b_def js_def agent_fallback_def
      loads_defaults_def)

text \<open>
  The claim as stated fails for the agent: when two voices are loaded and the agent's
  voice is neither of them, the agent's settings fall back to the second listed voice,
  not to the first.
\<close>

theorem agent_fallback_counterexample:
  "voiceId (agentSettings (fetchVoices initialVoiceChat (Json [voice_a, voice_b])))
     = voice_id voice_b \<and>
   voice_id voice_b \<noteq> voice_id voice_a \<and>
   voiceId (agentSettings initialVoiceChat) \<noteq> voice_id voice_a \<and>
   voiceId (agentSettings initialVoiceChat) \<noteq> voice_id voice_b"
  by (simp add: fetchVoices_def syncSettingsWithVoices_def elem_at_def initialVoiceChat_def
      voice_a_def voice_b_def js_def Let_def)

end
